theory Spec2Isabelle
  imports Complex_Main
begin

section \<open>Python values as the two fetcher scripts see them\<close>

text \<open>
  The scripts (\<^verbatim>\<open>yfinance_fetcher.py\<close>, \<^verbatim>\<open>yfinance_history_fetcher.py\<close>) handle untyped
  Python values coming from \<^verbatim>\<open>json.loads\<close> and from the provider library. A float is
  either finite (represented by the rational it denotes; no float arithmetic is modelled)
  or one of the three non-finite values.
\<close>

datatype pyfloat = Finite rat | PosInf | NegInf | NaN

fun isfinite :: "pyfloat \<Rightarrow> bool" where
  "isfinite (Finite r) = True"
| "isfinite PosInf = False"
| "isfinite NegInf = False"
| "isfinite NaN = False"

text \<open>An exception: its class name and its message (\<^verbatim>\<open>str(error)\<close>).\<close>

datatype exc = Exc (exc_class: string) (exc_msg: string)

text \<open>
  An attribute or method probed by \<^verbatim>\<open>hasattr\<close>/\<^verbatim>\<open>getattr\<close> and then used: the object
  does not have it, or using it raises, or it yields a value.
\<close>

datatype 'a cap = Absent | Raises exc | Returns 'a

text \<open>
  A \<^verbatim>\<open>datetime.datetime\<close>, by what the standard library renders for it:
  \<^verbatim>\<open>isoformat()\<close>, whether \<^verbatim>\<open>tzinfo\<close> is set, \<^verbatim>\<open>date().isoformat()\<close> of its own
  calendar fields, and \<^verbatim>\<open>astimezone(utc).date().isoformat()\<close> (which can raise at the
  ends of the date range).
\<close>

datatype pydatetime =
  DateTime (dt_iso: string) (dt_aware: bool) (dt_day: string) (dt_utc_day: "exc + string")

text \<open>
  \<open>PObj\<close> is any other object (a pandas or numpy value, say), by the capabilities the
  scripts probe: \<^verbatim>\<open>item()\<close>, \<^verbatim>\<open>tolist()\<close>, the \<^verbatim>\<open>empty\<close> attribute,
  \<^verbatim>\<open>to_dict()\<close>, \<^verbatim>\<open>to_dict(orient="split")\<close>, \<^verbatim>\<open>to_pydatetime()\<close>, \<^verbatim>\<open>float(...)\<close>,
  truthiness, and \<^verbatim>\<open>str(...)\<close>. A \<^verbatim>\<open>bool\<close> is a \<open>PBool\<close>, never a \<open>PInt\<close>; subclasses of
  \<^verbatim>\<open>int\<close> and \<^verbatim>\<open>float\<close> (numpy's float64) are \<open>PInt\<close> and \<open>PFloat\<close>. A dict is the
  list of its items in insertion order.
\<close>

datatype pyval =
    PNone
  | PBool bool
  | PInt int
  | PFloat pyfloat
  | PComplex pyfloat pyfloat
  | PStr string
  | PDate string
  | PDateTime pydatetime
  | PDict "(pyval \<times> pyval) list"
  | PList "pyval list"
  | PTuple "pyval list"
  | PObj (obj_item: "pyval cap") (obj_tolist: "pyval cap") (obj_empty: "bool cap")
         (obj_to_dict: "pyval cap") (obj_to_dict_split: "pyval cap")
         (obj_to_pydatetime: "pyval cap") (obj_float: "pyfloat cap")
         (obj_truth: "bool cap") (obj_str: string)

subsection \<open>\<^verbatim>\<open>str(...)\<close>\<close>

fun digit_char :: "nat \<Rightarrow> char" where
  "digit_char n = char_of (n + 48)"

fun str_nat :: "nat \<Rightarrow> string" where
  "str_nat n = (if n < 10 then [digit_char n] else str_nat (n div 10) @ [digit_char (n mod 10)])"

definition str_int :: "int \<Rightarrow> string" where
  "str_int i = (if i < 0 then CHR ''-'' # str_nat (nat (- i)) else str_nat (nat i))"

text \<open>
  \<^verbatim>\<open>str(value)\<close>. A string is its own \<^verbatim>\<open>str\<close>; an object brings its own. For the values
  whose \<^verbatim>\<open>str\<close> is the interpreter's \<^verbatim>\<open>repr\<close> (floats, complex numbers, dates, containers)
  the rendering is the parameter \<open>rp\<close>.
\<close>

fun py_str :: "(pyval \<Rightarrow> string) \<Rightarrow> pyval \<Rightarrow> string" where
  "py_str rp (PStr s) = s"
| "py_str rp PNone = ''None''"
| "py_str rp (PBool b) = (if b then ''True'' else ''False'')"
| "py_str rp (PInt i) = str_int i"
| "py_str rp (PObj it tls em td ts tp fl tr s) = s"
| "py_str rp v = rp v"

subsection \<open>Dict construction\<close>

text \<open>
  \<^verbatim>\<open>d[k] = v\<close>: an existing key keeps its place and takes the new value, a new key goes
  last. A dict comprehension stores its items one after the other.
\<close>

fun dict_set :: "('k \<times> 'v) list \<Rightarrow> 'k \<Rightarrow> 'v \<Rightarrow> ('k \<times> 'v) list" where
  "dict_set [] k v = [(k, v)]"
| "dict_set ((k', v') # d) k v = (if k' = k then (k', v) # d else (k', v') # dict_set d k v)"

fun dict_build :: "('k \<times> 'v) list \<Rightarrow> ('k \<times> 'v) list \<Rightarrow> ('k \<times> 'v) list" where
  "dict_build d [] = d"
| "dict_build d ((k, v) # kvs) = dict_build (dict_set d k v) kvs"

definition dict_of_items :: "('k \<times> 'v) list \<Rightarrow> ('k \<times> 'v) list" where
  "dict_of_items kvs = dict_build [] kvs"

section \<open>The value normalizer (\<^verbatim>\<open>_to_json_compatible\<close>)\<close>

text \<open>
  The branches in the order of the source: \<^verbatim>\<open>None\<close>, \<^verbatim>\<open>bool\<close>, \<^verbatim>\<open>int\<close>, \<^verbatim>\<open>float\<close>,
  \<^verbatim>\<open>complex\<close>, date and datetime, \<^verbatim>\<open>item()\<close> (tried, a failure falls through), dict,
  list or tuple, \<^verbatim>\<open>tolist()\<close> (tried, a failure falls through), and \<^verbatim>\<open>str(value)\<close>. Only an
  object has \<^verbatim>\<open>item\<close> or \<^verbatim>\<open>tolist\<close>; a string reaches the last branch.
\<close>

fun to_json_compatible :: "(pyval \<Rightarrow> string) \<Rightarrow> pyval \<Rightarrow> pyval" where
  "to_json_compatible rp PNone = PNone"
| "to_json_compatible rp (PBool b) = PBool b"
| "to_json_compatible rp (PInt i) = PInt i"
| "to_json_compatible rp (PFloat x) = (if isfinite x then PFloat x else PNone)"
| "to_json_compatible rp (PComplex re im) = PNone"
| "to_json_compatible rp (PDate day) = PStr day"
| "to_json_compatible rp (PDateTime d) = PStr (dt_iso d)"
| "to_json_compatible rp (PObj it tls em td ts tp fl tr s) =
     (case it of
        Returns v \<Rightarrow> to_json_compatible rp v
      | _ \<Rightarrow>
        (case tls of
           Returns w \<Rightarrow> to_json_compatible rp w
         | _ \<Rightarrow> PStr (py_str rp (PObj it tls em td ts tp fl tr s))))"
| "to_json_compatible rp (PDict kvs) =
     PDict (dict_of_items (map (\<lambda>kv. (PStr (py_str rp (fst kv)), to_json_compatible rp (snd kv))) kvs))"
| "to_json_compatible rp (PList xs) = PList (map (to_json_compatible rp) xs)"
| "to_json_compatible rp (PTuple xs) = PList (map (to_json_compatible rp) xs)"
| "to_json_compatible rp (PStr s) = PStr (py_str rp (PStr s))"

text \<open>
  The shape of a normalized value: \<^verbatim>\<open>None\<close>, a bool, an int, a finite float, a string, a
  list of normalized values, or a dict with string keys (distinct, as the keys of a dict
  are) and normalized values.
\<close>

fun is_str :: "pyval \<Rightarrow> bool" where
  "is_str (PStr s) = True"
| "is_str v = False"

fun normalized :: "pyval \<Rightarrow> bool" where
  "normalized PNone = True"
| "normalized (PBool b) = True"
| "normalized (PInt i) = True"
| "normalized (PFloat x) = isfinite x"
| "normalized (PStr s) = True"
| "normalized (PList xs) = list_all normalized xs"
| "normalized (PDict kvs) =
     (distinct (map fst kvs) \<and> list_all (\<lambda>kv. is_str (fst kv) \<and> normalized (snd kv)) kvs)"
| "normalized v = False"

section \<open>The table and series adapters\<close>

text \<open>Exceptions as values: \<open>Inl\<close> is a raised exception.\<close>

definition bind_exc :: "exc + 'a \<Rightarrow> ('a \<Rightarrow> exc + 'b) \<Rightarrow> exc + 'b" where
  "bind_exc m f = (case m of Inl e \<Rightarrow> Inl e | Inr x \<Rightarrow> f x)"

definition attribute_error :: "string \<Rightarrow> exc" where
  "attribute_error name = Exc ''AttributeError'' (''object has no attribute '' @ name)"

text \<open>\<^verbatim>\<open>getattr(x, "empty", False)\<close> under \<^verbatim>\<open>if\<close>: builtin values have no such attribute.\<close>

fun getattr_empty :: "pyval \<Rightarrow> exc + bool" where
  "getattr_empty (PObj it tls em td ts tp fl tr s) =
     (case em of Absent \<Rightarrow> Inr False | Raises e \<Rightarrow> Inl e | Returns b \<Rightarrow> Inr b)"
| "getattr_empty v = Inr False"

text \<open>\<^verbatim>\<open>df.to_dict(orient="split")\<close>.\<close>

fun call_to_dict_split :: "pyval \<Rightarrow> exc + pyval" where
  "call_to_dict_split (PObj it tls em td ts tp fl tr s) =
     (case ts of Absent \<Rightarrow> Inl (attribute_error ''to_dict'') | Raises e \<Rightarrow> Inl e
      | Returns v \<Rightarrow> Inr v)"
| "call_to_dict_split v = Inl (attribute_error ''to_dict'')"

definition empty_table :: pyval where
  "empty_table =
     PDict [(PStr ''columns'', PList []), (PStr ''index'', PList []), (PStr ''data'', PList [])]"

text \<open>The \<^verbatim>\<open>try\<close> block of \<^verbatim>\<open>_df_to_payload\<close>, then the function with its \<^verbatim>\<open>except\<close>.\<close>

definition df_to_payload_try :: "(pyval \<Rightarrow> string) \<Rightarrow> pyval \<Rightarrow> exc + pyval" where
  "df_to_payload_try rp df =
     bind_exc (getattr_empty df) (\<lambda>empty.
       if empty then Inr empty_table
       else bind_exc (call_to_dict_split df) (\<lambda>split. Inr (to_json_compatible rp split)))"

definition df_to_payload :: "(pyval \<Rightarrow> string) \<Rightarrow> pyval \<Rightarrow> pyval" where
  "df_to_payload rp df =
     (if df = PNone then PNone
      else case df_to_payload_try rp df of Inl e \<Rightarrow> PNone | Inr payload \<Rightarrow> payload)"

text \<open>\<^verbatim>\<open>hasattr(series, "to_dict")\<close>, \<^verbatim>\<open>series.to_dict()\<close> and \<^verbatim>\<open>raw_dict.items()\<close>.\<close>

fun has_to_dict :: "pyval \<Rightarrow> bool" where
  "has_to_dict (PObj it tls em td ts tp fl tr s) = (td \<noteq> Absent)"
| "has_to_dict v = False"

fun call_to_dict :: "pyval \<Rightarrow> exc + pyval" where
  "call_to_dict (PObj it tls em td ts tp fl tr s) =
     (case td of Absent \<Rightarrow> Inl (attribute_error ''to_dict'') | Raises e \<Rightarrow> Inl e
      | Returns v \<Rightarrow> Inr v)"
| "call_to_dict v = Inl (attribute_error ''to_dict'')"

fun dict_items :: "pyval \<Rightarrow> exc + (pyval \<times> pyval) list" where
  "dict_items (PDict kvs) = Inr kvs"
| "dict_items v = Inl (attribute_error ''items'')"

definition series_entry :: "(pyval \<Rightarrow> string) \<Rightarrow> pyval \<times> pyval \<Rightarrow> pyval" where
  "series_entry rp kv =
     PDict [(PStr ''date'', to_json_compatible rp (fst kv)),
            (PStr ''value'', to_json_compatible rp (snd kv))]"

definition series_to_payload_try :: "(pyval \<Rightarrow> string) \<Rightarrow> pyval \<Rightarrow> exc + pyval" where
  "series_to_payload_try rp series =
     bind_exc (getattr_empty series) (\<lambda>empty.
       if empty then Inr (PList [])
       else if has_to_dict series then
         bind_exc (call_to_dict series) (\<lambda>raw_dict.
           bind_exc (dict_items raw_dict) (\<lambda>items. Inr (PList (map (series_entry rp) items))))
       else Inr (to_json_compatible rp series))"

definition series_to_payload :: "(pyval \<Rightarrow> string) \<Rightarrow> pyval \<Rightarrow> pyval" where
  "series_to_payload rp series =
     (if series = PNone then PNone
      else case series_to_payload_try rp series of Inl e \<Rightarrow> PNone | Inr payload \<Rightarrow> payload)"

section \<open>Builtins the two \<^verbatim>\<open>main\<close> functions use\<close>

text \<open>\<^verbatim>\<open>str.strip()\<close>, on the whitespace of the ASCII range.\<close>

definition is_space :: "char \<Rightarrow> bool" where
  "is_space c = (let n = (of_char c :: nat) in (9 \<le> n \<and> n \<le> 13) \<or> (28 \<le> n \<and> n \<le> 32))"

definition py_strip :: "string \<Rightarrow> string" where
  "py_strip s = rev (dropWhile is_space (rev (dropWhile is_space s)))"

text \<open>Truth value of a Python value; an object's \<^verbatim>\<open>__bool__\<close> may raise.\<close>

fun py_truthy :: "pyval \<Rightarrow> exc + bool" where
  "py_truthy PNone = Inr False"
| "py_truthy (PBool b) = Inr b"
| "py_truthy (PInt i) = Inr (i \<noteq> 0)"
| "py_truthy (PFloat x) = Inr (x \<noteq> Finite 0)"
| "py_truthy (PComplex re im) = Inr (\<not> (re = Finite 0 \<and> im = Finite 0))"
| "py_truthy (PStr s) = Inr (s \<noteq> [])"
| "py_truthy (PDate day) = Inr True"
| "py_truthy (PDateTime d) = Inr True"
| "py_truthy (PDict kvs) = Inr (kvs \<noteq> [])"
| "py_truthy (PList xs) = Inr (xs \<noteq> [])"
| "py_truthy (PTuple xs) = Inr (xs \<noteq> [])"
| "py_truthy (PObj it tls em td ts tp fl tr s) =
     (case tr of Absent \<Rightarrow> Inr True | Raises e \<Rightarrow> Inl e | Returns b \<Rightarrow> Inr b)"

text \<open>\<^verbatim>\<open>x or y\<close>.\<close>

definition py_or :: "pyval \<Rightarrow> pyval \<Rightarrow> exc + pyval" where
  "py_or x y = bind_exc (py_truthy x) (\<lambda>t. Inr (if t then x else y))"

text \<open>
  \<^verbatim>\<open>int(text)\<close> in base 10: surrounding whitespace, an optional sign, then digits, where
  single underscores may stand between digits.
\<close>

definition digit_val :: "char \<Rightarrow> nat option" where
  "digit_val c =
     (let n = (of_char c :: nat) in if 48 \<le> n \<and> n \<le> 57 then Some (n - 48) else None)"

fun parse_digits :: "nat \<Rightarrow> string \<Rightarrow> nat option" where
  "parse_digits acc [] = Some acc"
| "parse_digits acc [c] =
     (case digit_val c of None \<Rightarrow> None | Some v \<Rightarrow> Some (acc * 10 + v))"
| "parse_digits acc (c # d # cs) =
     (if c = CHR ''_'' then
        (case digit_val d of None \<Rightarrow> None | Some v \<Rightarrow> parse_digits (acc * 10 + v) cs)
      else
        (case digit_val c of None \<Rightarrow> None | Some v \<Rightarrow> parse_digits (acc * 10 + v) (d # cs)))"

definition parse_nat :: "string \<Rightarrow> nat option" where
  "parse_nat s =
     (case s of [] \<Rightarrow> None
      | c # cs \<Rightarrow> (case digit_val c of None \<Rightarrow> None | Some v \<Rightarrow> parse_digits v cs))"

definition int_of_str :: "string \<Rightarrow> int option" where
  "int_of_str s =
     (case py_strip s of [] \<Rightarrow> None
      | c # cs \<Rightarrow>
          if c = CHR ''-'' then map_option (\<lambda>n. - int n) (parse_nat cs)
          else if c = CHR ''+'' then map_option int (parse_nat cs)
          else map_option int (parse_nat (c # cs)))"

text \<open>
  \<^verbatim>\<open>int(value)\<close> on what \<^verbatim>\<open>json.loads\<close> can produce: a bool, an int, a float (truncated
  towards zero; \<^verbatim>\<open>NaN\<close> and the infinities raise), a string (parsed), and a
  \<^verbatim>\<open>TypeError\<close> for \<^verbatim>\<open>None\<close>, a list or a dict. The messages of the exceptions the
  interpreter raises are given by their fixed part.
\<close>

fun py_int :: "pyval \<Rightarrow> exc + int" where
  "py_int (PBool b) = Inr (if b then 1 else 0)"
| "py_int (PInt i) = Inr i"
| "py_int (PFloat (Finite r)) = Inr (if 0 \<le> r then \<lfloor>r\<rfloor> else \<lceil>r\<rceil>)"
| "py_int (PFloat NaN) = Inl (Exc ''ValueError'' ''cannot convert float NaN to integer'')"
| "py_int (PFloat x) = Inl (Exc ''OverflowError'' ''cannot convert float infinity to integer'')"
| "py_int (PStr s) =
     (case int_of_str s of
        None \<Rightarrow> Inl (Exc ''ValueError'' ''invalid literal for int() with base 10'')
      | Some i \<Rightarrow> Inr i)"
| "py_int v =
     Inl (Exc ''TypeError''
       ''int() argument must be a string, a bytes-like object or a real number'')"

text \<open>
  \<^verbatim>\<open>float(value)\<close>. The parser of \<^verbatim>\<open>float(text)\<close> is the parameter \<open>fs\<close>; an int is
  converted exactly when it is in the range of a double and overflows otherwise (the
  rounding to 53 bits is not modelled); an object brings its own \<^verbatim>\<open>__float__\<close>.
\<close>

fun py_float :: "(string \<Rightarrow> exc + pyfloat) \<Rightarrow> pyval \<Rightarrow> exc + pyfloat" where
  "py_float fs (PFloat x) = Inr x"
| "py_float fs (PBool b) = Inr (Finite (if b then 1 else 0))"
| "py_float fs (PInt i) =
     (if \<bar>i\<bar> < 2 ^ 1024 then Inr (Finite (of_int i))
      else Inl (Exc ''OverflowError'' ''int too large to convert to float''))"
| "py_float fs (PStr s) = fs s"
| "py_float fs (PObj it tls em td ts tp fl tr s) =
     (case fl of
        Absent \<Rightarrow> Inl (Exc ''TypeError'' ''float() argument must be a string or a real number'')
      | Raises e \<Rightarrow> Inl e
      | Returns x \<Rightarrow> Inr x)"
| "py_float fs v =
     Inl (Exc ''TypeError'' ''float() argument must be a string or a real number'')"

text \<open>Float comparison \<^verbatim>\<open>x != y\<close>: \<^verbatim>\<open>NaN\<close> differs from everything, itself included.\<close>

definition float_ne :: "pyfloat \<Rightarrow> pyfloat \<Rightarrow> bool" where
  "float_ne x y = (x = NaN \<or> y = NaN \<or> x \<noteq> y)"

text \<open>\<^verbatim>\<open>d.get(key, default)\<close> on the items of a dict with string keys.\<close>

definition dict_get :: "(pyval \<times> pyval) list \<Rightarrow> string \<Rightarrow> pyval \<Rightarrow> pyval" where
  "dict_get d k dflt = (case map_of d (PStr k) of None \<Rightarrow> dflt | Some v \<Rightarrow> v)"

text \<open>\<^verbatim>\<open>getattr(obj, name, default)\<close> on an attribute of the provider's object.\<close>

definition getattr_default :: "pyval cap \<Rightarrow> pyval \<Rightarrow> exc + pyval" where
  "getattr_default c dflt = (case c of Absent \<Rightarrow> Inr dflt | Raises e \<Rightarrow> Inl e | Returns v \<Rightarrow> Inr v)"

section \<open>The response writer (\<^verbatim>\<open>json.dumps\<close> and \<^verbatim>\<open>_emit\<close>)\<close>

text \<open>
  The JSON text is the sequence of its lexical tokens. \<open>TNaN\<close>, \<open>TInfinity\<close> and
  \<open>TNegInfinity\<close> are the literals \<^verbatim>\<open>NaN\<close>, \<^verbatim>\<open>Infinity\<close> and \<^verbatim>\<open>-Infinity\<close>, which strict JSON
  does not have.
\<close>

datatype token =
    LBrace | RBrace | LBracket | RBracket | Colon | Comma
  | TNull | TTrue | TFalse | TInt int | TFloat rat | TString string
  | TNaN | TInfinity | TNegInfinity

definition out_of_range :: exc where
  "out_of_range = Exc ''ValueError'' ''Out of range float values are not JSON compliant''"

definition not_serializable :: exc where
  "not_serializable = Exc ''TypeError'' ''Object is not JSON serializable''"

fun dumps_float :: "bool \<Rightarrow> pyfloat \<Rightarrow> exc + token" where
  "dumps_float allow_nan (Finite r) = Inr (TFloat r)"
| "dumps_float allow_nan NaN = (if allow_nan then Inr TNaN else Inl out_of_range)"
| "dumps_float allow_nan PosInf = (if allow_nan then Inr TInfinity else Inl out_of_range)"
| "dumps_float allow_nan NegInf = (if allow_nan then Inr TNegInfinity else Inl out_of_range)"

text \<open>A dict key becomes a string; only \<^verbatim>\<open>str\<close>, \<^verbatim>\<open>int\<close>, \<^verbatim>\<open>float\<close>, \<^verbatim>\<open>bool\<close> and \<^verbatim>\<open>None\<close> keys are accepted.\<close>

fun dumps_key :: "(pyval \<Rightarrow> string) \<Rightarrow> bool \<Rightarrow> pyval \<Rightarrow> exc + string" where
  "dumps_key rp allow_nan (PStr s) = Inr s"
| "dumps_key rp allow_nan PNone = Inr ''null''"
| "dumps_key rp allow_nan (PBool b) = Inr (if b then ''true'' else ''false'')"
| "dumps_key rp allow_nan (PInt i) = Inr (str_int i)"
| "dumps_key rp allow_nan (PFloat (Finite r)) = Inr (rp (PFloat (Finite r)))"
| "dumps_key rp allow_nan (PFloat NaN) = (if allow_nan then Inr ''NaN'' else Inl out_of_range)"
| "dumps_key rp allow_nan (PFloat PosInf) =
     (if allow_nan then Inr ''Infinity'' else Inl out_of_range)"
| "dumps_key rp allow_nan (PFloat NegInf) =
     (if allow_nan then Inr ''-Infinity'' else Inl out_of_range)"
| "dumps_key rp allow_nan v =
     Inl (Exc ''TypeError'' ''keys must be str, int, float, bool or None'')"

text \<open>
  \<^verbatim>\<open>json.dumps(value, ensure_ascii=False, allow_nan=...)\<close>: the tokens, or the exception of
  the first value in document order that cannot be encoded.
\<close>

fun json_dumps :: "(pyval \<Rightarrow> string) \<Rightarrow> bool \<Rightarrow> pyval \<Rightarrow> exc + token list"
  and json_dumps_list :: "(pyval \<Rightarrow> string) \<Rightarrow> bool \<Rightarrow> pyval list \<Rightarrow> exc + token list"
  and json_dumps_items ::
    "(pyval \<Rightarrow> string) \<Rightarrow> bool \<Rightarrow> (pyval \<times> pyval) list \<Rightarrow> exc + token list"
where
  "json_dumps rp allow_nan PNone = Inr [TNull]"
| "json_dumps rp allow_nan (PBool b) = Inr [if b then TTrue else TFalse]"
| "json_dumps rp allow_nan (PInt i) = Inr [TInt i]"
| "json_dumps rp allow_nan (PFloat x) = bind_exc (dumps_float allow_nan x) (\<lambda>t. Inr [t])"
| "json_dumps rp allow_nan (PStr s) = Inr [TString s]"
| "json_dumps rp allow_nan (PList xs) =
     bind_exc (json_dumps_list rp allow_nan xs) (\<lambda>ts. Inr (LBracket # ts @ [RBracket]))"
| "json_dumps rp allow_nan (PTuple xs) =
     bind_exc (json_dumps_list rp allow_nan xs) (\<lambda>ts. Inr (LBracket # ts @ [RBracket]))"
| "json_dumps rp allow_nan (PDict kvs) =
     bind_exc (json_dumps_items rp allow_nan kvs) (\<lambda>ts. Inr (LBrace # ts @ [RBrace]))"
| "json_dumps rp allow_nan (PComplex re im) = Inl not_serializable"
| "json_dumps rp allow_nan (PDate day) = Inl not_serializable"
| "json_dumps rp allow_nan (PDateTime d) = Inl not_serializable"
| "json_dumps rp allow_nan (PObj it tls em td ts tp fl tr s) = Inl not_serializable"
| "json_dumps_list rp allow_nan [] = Inr []"
| "json_dumps_list rp allow_nan (x # xs) =
     bind_exc (json_dumps rp allow_nan x) (\<lambda>t.
       bind_exc (json_dumps_list rp allow_nan xs) (\<lambda>ts.
         Inr (if xs = [] then t else t @ Comma # ts)))"
| "json_dumps_items rp allow_nan [] = Inr []"
| "json_dumps_items rp allow_nan (kv # kvs) =
     bind_exc (dumps_key rp allow_nan (fst kv)) (\<lambda>k.
       bind_exc (json_dumps rp allow_nan (snd kv)) (\<lambda>t.
         bind_exc (json_dumps_items rp allow_nan kvs) (\<lambda>ts.
           Inr (if kvs = [] then TString k # Colon # t else TString k # Colon # t @ Comma # ts))))"

text \<open>
  \<^verbatim>\<open>_emit\<close> of the market-data script passes \<^verbatim>\<open>allow_nan=False\<close>; \<^verbatim>\<open>_emit\<close> of the
  price-history script leaves \<^verbatim>\<open>allow_nan\<close> at its default, \<^verbatim>\<open>True\<close>. The result is what is
  written to standard output, or the exception raised before anything is written.
\<close>

definition emit1 :: "(pyval \<Rightarrow> string) \<Rightarrow> pyval \<Rightarrow> exc + token list" where
  "emit1 rp payload = json_dumps rp False payload"

definition emit2 :: "(pyval \<Rightarrow> string) \<Rightarrow> pyval \<Rightarrow> exc + token list" where
  "emit2 rp payload = json_dumps rp True payload"

section \<open>The request reader\<close>

text \<open>
  \<^verbatim>\<open>_load_input\<close> (market data) and \<^verbatim>\<open>_read_input\<close> (price history) have the same body.
  \<open>loads\<close> is \<^verbatim>\<open>json.loads\<close>. The result is the items of the request dict.
\<close>

definition load_input :: "(string \<Rightarrow> exc + pyval) \<Rightarrow> string \<Rightarrow> (pyval \<times> pyval) list" where
  "load_input loads stdin =
     (let raw = py_strip stdin in
      if raw = [] then []
      else case loads raw of
             Inl e \<Rightarrow> []
           | Inr payload \<Rightarrow> (case payload of PDict kvs \<Rightarrow> kvs | _ \<Rightarrow> []))"

definition read_input :: "(string \<Rightarrow> exc + pyval) \<Rightarrow> string \<Rightarrow> (pyval \<times> pyval) list" where
  "read_input loads stdin =
     (let raw = py_strip stdin in
      if raw = [] then []
      else case loads raw of
             Inl e \<Rightarrow> []
           | Inr v \<Rightarrow> (case v of PDict kvs \<Rightarrow> kvs | _ \<Rightarrow> []))"

section \<open>The process: what is outside the scripts, and what a run leaves behind\<close>

text \<open>
  The interpreter and the standard library, as far as the scripts depend on them:
  \<^verbatim>\<open>json.loads\<close>, the \<^verbatim>\<open>repr\<close> behind \<^verbatim>\<open>str\<close>, the parser of \<^verbatim>\<open>float(text)\<close>, and the
  clock (\<^verbatim>\<open>datetime.now(timezone.utc).isoformat()\<close>).
\<close>

record runtime =
  rt_loads :: "string \<Rightarrow> exc + pyval"
  rt_repr :: "pyval \<Rightarrow> string"
  rt_float_of_str :: "string \<Rightarrow> exc + pyfloat"
  rt_now :: string

text \<open>
  A run is the sequence of its effects and the way the process ends: \<^verbatim>\<open>main\<close> returns
  an exit code, or an exception leaves \<^verbatim>\<open>main\<close> (the interpreter prints the traceback to
  standard error and exits with 1).
\<close>

datatype event = Provider_import | Stdout "token list"

datatype exit = Exit int | Traceback exc

type_synonym run = "event list \<times> exit"

text \<open>A call of \<^verbatim>\<open>_emit\<close> followed by \<^verbatim>\<open>return 0\<close>, outside any \<^verbatim>\<open>try\<close>.\<close>

definition emit_return :: "event list \<Rightarrow> exc + token list \<Rightarrow> run" where
  "emit_return sofar written =
     (case written of
        Inl e \<Rightarrow> (sofar, Traceback e)
      | Inr text \<Rightarrow> (sofar @ [Stdout text], Exit 0))"

definition failure :: "string \<Rightarrow> string \<Rightarrow> pyval" where
  "failure code message =
     PDict [(PStr ''ok'', PBool False), (PStr ''code'', PStr code), (PStr ''error'', PStr message)]"

definition invalid_input :: pyval where
  "invalid_input = failure ''invalid_input'' ''ticker is required''"

definition dependency_missing :: pyval where
  "dependency_missing =
     failure ''dependency_missing'' ''python package 'yfinance' is not installed''"

section \<open>\<^verbatim>\<open>main\<close> of the market-data script\<close>

text \<open>
  The \<^verbatim>\<open>yfinance.Ticker\<close> object as the script reads it: every attribute is read with
  \<^verbatim>\<open>getattr(asset, name, default)\<close>, \<^verbatim>\<open>history\<close> is called with the period.
\<close>

record asset1 =
  a1_info :: "pyval cap"
  a1_fast_info :: "pyval cap"
  a1_history :: "string \<Rightarrow> exc + pyval"
  a1_dividends :: "pyval cap"
  a1_financials :: "pyval cap"
  a1_quarterly_financials :: "pyval cap"
  a1_balance_sheet :: "pyval cap"
  a1_quarterly_balance_sheet :: "pyval cap"
  a1_cashflow :: "pyval cap"
  a1_quarterly_cashflow :: "pyval cap"
  a1_recommendations :: "pyval cap"
  a1_institutional_holders :: "pyval cap"
  a1_major_holders :: "pyval cap"
  a1_calendar :: "pyval cap"

text \<open>The payload dict of the \<^verbatim>\<open>try\<close> block, in the order the source evaluates it.\<close>

definition payload1 :: "runtime \<Rightarrow> asset1 \<Rightarrow> string \<Rightarrow> int \<Rightarrow> exc + pyval" where
  "payload1 rt asset ticker history_days =
     (let rp = rt_repr rt in
      bind_exc (getattr_default (a1_info asset) (PDict [])) (\<lambda>i0.
      bind_exc (py_or i0 (PDict [])) (\<lambda>i1.
      bind_exc (getattr_default (a1_fast_info asset) (PDict [])) (\<lambda>f0.
      bind_exc (py_or f0 (PDict [])) (\<lambda>f1.
      bind_exc (a1_history asset (str_int (max history_days 1) @ ''d'')) (\<lambda>history_df.
      bind_exc (getattr_default (a1_dividends asset) PNone) (\<lambda>dividends.
      bind_exc (getattr_default (a1_financials asset) PNone) (\<lambda>financials.
      bind_exc (getattr_default (a1_quarterly_financials asset) PNone) (\<lambda>quarterly_financials.
      bind_exc (getattr_default (a1_balance_sheet asset) PNone) (\<lambda>balance_sheet.
      bind_exc (getattr_default (a1_quarterly_balance_sheet asset) PNone) (\<lambda>quarterly_balance_sheet.
      bind_exc (getattr_default (a1_cashflow asset) PNone) (\<lambda>cashflow.
      bind_exc (getattr_default (a1_quarterly_cashflow asset) PNone) (\<lambda>quarterly_cashflow.
      bind_exc (getattr_default (a1_recommendations asset) PNone) (\<lambda>recommendations.
      bind_exc (getattr_default (a1_institutional_holders asset) PNone) (\<lambda>institutional_holders.
      bind_exc (getattr_default (a1_major_holders asset) PNone) (\<lambda>major_holders.
      bind_exc (getattr_default (a1_calendar asset) PNone) (\<lambda>calendar.
        Inr (PDict
          [(PStr ''ticker'', PStr ticker),
           (PStr ''fetched_at'', PStr (rt_now rt)),
           (PStr ''info'', to_json_compatible rp i1),
           (PStr ''fast_info'', to_json_compatible rp f1),
           (PStr ''history'', df_to_payload rp history_df),
           (PStr ''dividends'', series_to_payload rp dividends),
           (PStr ''financials'', df_to_payload rp financials),
           (PStr ''quarterly_financials'', df_to_payload rp quarterly_financials),
           (PStr ''balance_sheet'', df_to_payload rp balance_sheet),
           (PStr ''quarterly_balance_sheet'', df_to_payload rp quarterly_balance_sheet),
           (PStr ''cashflow'', df_to_payload rp cashflow),
           (PStr ''quarterly_cashflow'', df_to_payload rp quarterly_cashflow),
           (PStr ''recommendations'', df_to_payload rp recommendations),
           (PStr ''institutional_holders'', df_to_payload rp institutional_holders),
           (PStr ''major_holders'', df_to_payload rp major_holders),
           (PStr ''calendar'', to_json_compatible rp calendar)]))))))))))))))))))"

text \<open>
  \<open>yf\<close> is the provider module: \<open>None\<close> when \<^verbatim>\<open>import yfinance\<close> fails, otherwise its
  \<^verbatim>\<open>Ticker\<close> constructor. The conversion of \<^verbatim>\<open>history_days\<close> stands before the ticker check
  and outside every \<^verbatim>\<open>try\<close>, as in the source.
\<close>

definition main1 :: "runtime \<Rightarrow> (string \<Rightarrow> exc + asset1) option \<Rightarrow> string \<Rightarrow> run" where
  "main1 rt yf stdin =
     (let args = load_input (rt_loads rt) stdin;
          ticker = py_strip (py_str (rt_repr rt) (dict_get args ''ticker'' (PStr [])))
      in case bind_exc (py_or (dict_get args ''history_days'' (PInt 30)) (PInt 30)) py_int of
           Inl e \<Rightarrow> ([], Traceback e)
         | Inr history_days \<Rightarrow>
             if ticker = [] then emit_return [] (emit1 (rt_repr rt) invalid_input)
             else case yf of
                 None \<Rightarrow> emit_return [Provider_import] (emit1 (rt_repr rt) dependency_missing)
               | Some Ticker \<Rightarrow>
                   (case bind_exc (Ticker ticker) (\<lambda>asset.
                           bind_exc (payload1 rt asset ticker history_days) (\<lambda>payload.
                             emit1 (rt_repr rt)
                               (PDict [(PStr ''ok'', PBool True), (PStr ''source'', PStr ''yfinance''),
                                       (PStr ''payload'', payload)]))) of
                      Inr text \<Rightarrow> ([Provider_import, Stdout text], Exit 0)
                    | Inl error \<Rightarrow>
                        emit_return [Provider_import]
                          (emit1 (rt_repr rt) (failure ''runtime_error'' (exc_msg error)))))"

section \<open>\<^verbatim>\<open>main\<close> of the price-history script\<close>

text \<open>\<^verbatim>\<open>_to_number\<close>: \<^verbatim>\<open>None\<close> stays \<^verbatim>\<open>None\<close>; a failed conversion and \<^verbatim>\<open>NaN\<close> give \<^verbatim>\<open>None\<close>.\<close>

definition to_number :: "(string \<Rightarrow> exc + pyfloat) \<Rightarrow> pyval \<Rightarrow> pyval" where
  "to_number fs v =
     (if v = PNone then PNone
      else case py_float fs v of
             Inl e \<Rightarrow> PNone
           | Inr number \<Rightarrow> if float_ne number number then PNone else PFloat number)"

text \<open>
  \<^verbatim>\<open>_index_to_utc_date\<close>: \<^verbatim>\<open>to_pydatetime()\<close> is tried first (a failure keeps the value);
  a datetime gives the calendar date of its instant in UTC, a date its own ISO form,
  anything else the first ten characters of its stripped \<^verbatim>\<open>str\<close>, or \<^verbatim>\<open>None\<close> when that
  is empty. \<^verbatim>\<open>astimezone\<close> is outside the \<^verbatim>\<open>try\<close>: its exception leaves the function.
\<close>

fun try_to_pydatetime :: "pyval \<Rightarrow> pyval" where
  "try_to_pydatetime (PObj it tls em td ts tp fl tr s) =
     (case tp of Returns v \<Rightarrow> v | _ \<Rightarrow> PObj it tls em td ts tp fl tr s)"
| "try_to_pydatetime v = v"

fun date_of_value :: "(pyval \<Rightarrow> string) \<Rightarrow> pyval \<Rightarrow> exc + string option" where
  "date_of_value rp (PDateTime d) =
     (if \<not> dt_aware d then Inr (Some (dt_day d))
      else bind_exc (dt_utc_day d) (\<lambda>day. Inr (Some day)))"
| "date_of_value rp (PDate day) = Inr (Some day)"
| "date_of_value rp v =
     (let parsed = py_strip (py_str rp v) in
      if parsed = [] then Inr None else Inr (Some (take 10 parsed)))"

definition index_to_utc_date :: "(pyval \<Rightarrow> string) \<Rightarrow> pyval \<Rightarrow> exc + string option" where
  "index_to_utc_date rp v = date_of_value rp (try_to_pydatetime v)"

text \<open>A row of the history table: \<^verbatim>\<open>row.get(column)\<close> is \<^verbatim>\<open>None\<close> for a missing column.\<close>

definition row_get :: "(string \<times> pyval) list \<Rightarrow> string \<Rightarrow> pyval" where
  "row_get row column = (case map_of row column of None \<Rightarrow> PNone | Some v \<Rightarrow> v)"

text \<open>The dict appended for one row; \<^verbatim>\<open>or 0.0\<close> on the last two fields.\<close>

definition history_row ::
  "(string \<Rightarrow> exc + pyfloat) \<Rightarrow> string \<Rightarrow> (string \<times> pyval) list \<Rightarrow> exc + pyval" where
  "history_row fs date row =
     bind_exc (py_or (to_number fs (row_get row ''Dividends'')) (PFloat (Finite 0))) (\<lambda>dividends.
     bind_exc (py_or (to_number fs (row_get row ''Stock Splits'')) (PFloat (Finite 0))) (\<lambda>stock_splits.
       Inr (PDict
         [(PStr ''date'', PStr date),
          (PStr ''open'', to_number fs (row_get row ''Open'')),
          (PStr ''high'', to_number fs (row_get row ''High'')),
          (PStr ''low'', to_number fs (row_get row ''Low'')),
          (PStr ''close'', to_number fs (row_get row ''Close'')),
          (PStr ''adjusted_close'', to_number fs (row_get row ''Adj Close'')),
          (PStr ''volume'', to_number fs (row_get row ''Volume'')),
          (PStr ''dividends'', dividends),
          (PStr ''stock_splits'', stock_splits)])))"

text \<open>
  The loop over \<^verbatim>\<open>history.iterrows()\<close>: a row without a date (\<^verbatim>\<open>None\<close> or the empty
  string) is skipped by \<^verbatim>\<open>continue\<close>, an exception ends the loop.
\<close>

fun history_rows ::
  "runtime \<Rightarrow> (pyval \<times> (string \<times> pyval) list) list \<Rightarrow> exc + pyval list" where
  "history_rows rt [] = Inr []"
| "history_rows rt (ir # rest) =
     bind_exc (index_to_utc_date (rt_repr rt) (fst ir)) (\<lambda>date.
       if date = None \<or> date = Some [] then history_rows rt rest
       else bind_exc (history_row (rt_float_of_str rt) (the date) (snd ir)) (\<lambda>r.
              bind_exc (history_rows rt rest) (\<lambda>rs. Inr (r # rs))))"

text \<open>
  The table \<^verbatim>\<open>asset.history(...)\<close> returns: \<^verbatim>\<open>None\<close>, or a frame with its \<^verbatim>\<open>empty\<close>
  attribute and the (index, row) pairs of \<^verbatim>\<open>iterrows()\<close>.
\<close>

datatype history = HNone | HFrame (h_empty: "bool cap") (h_rows: "(pyval \<times> (string \<times> pyval) list) list")

definition rows_of_history :: "runtime \<Rightarrow> history \<Rightarrow> exc + pyval list" where
  "rows_of_history rt h =
     (case h of
        HNone \<Rightarrow> Inr []
      | HFrame em rows \<Rightarrow>
          (case em of
             Absent \<Rightarrow> Inl (attribute_error ''empty'')
           | Raises e \<Rightarrow> Inl e
           | Returns b \<Rightarrow> if b then Inr [] else history_rows rt rows))"

record history_kwargs =
  hk_interval :: string
  hk_auto_adjust :: bool
  hk_actions :: bool
  hk_start :: "string option"
  hk_period :: "string option"

record asset2 =
  a2_history :: "history_kwargs \<Rightarrow> exc + history"
  a2_info :: "pyval cap"

text \<open>\<^verbatim>\<open>str(args.get(key, "")).strip() or None\<close>.\<close>

definition str_arg :: "runtime \<Rightarrow> (pyval \<times> pyval) list \<Rightarrow> string \<Rightarrow> string \<Rightarrow> string" where
  "str_arg rt args key dflt = py_strip (py_str (rt_repr rt) (dict_get args key (PStr dflt)))"

definition make_kwargs :: "string \<Rightarrow> string \<Rightarrow> string \<Rightarrow> history_kwargs" where
  "make_kwargs interval start_date period =
     \<lparr>hk_interval = interval, hk_auto_adjust = False, hk_actions = True,
      hk_start = (if start_date \<noteq> [] then Some start_date else None),
      hk_period = (if start_date \<noteq> [] then None
                   else if period \<noteq> [] then Some period else Some ''max'')\<rparr>"

text \<open>\<^verbatim>\<open>info.get("currency")\<close>: only a dict has \<^verbatim>\<open>get\<close> here.\<close>

fun info_get :: "pyval \<Rightarrow> string \<Rightarrow> exc + pyval" where
  "info_get (PDict kvs) k = Inr (dict_get kvs k PNone)"
| "info_get v k = Inl (attribute_error ''get'')"

definition response2 :: "runtime \<Rightarrow> asset2 \<Rightarrow> string \<Rightarrow> history_kwargs \<Rightarrow> exc + pyval" where
  "response2 rt asset ticker kwargs =
     bind_exc (a2_history asset kwargs) (\<lambda>history.
     bind_exc (rows_of_history rt history) (\<lambda>rows.
     bind_exc (getattr_default (a2_info asset) (PDict [])) (\<lambda>i0.
     bind_exc (py_or i0 (PDict [])) (\<lambda>info.
     bind_exc (info_get info ''currency'') (\<lambda>currency.
       Inr (PDict
         [(PStr ''ok'', PBool True),
          (PStr ''payload'',
           PDict [(PStr ''ticker'', PStr ticker),
                  (PStr ''currency'', currency),
                  (PStr ''fetched_at'', PStr (rt_now rt)),
                  (PStr ''rows'', PList rows)])]))))))"

definition main2 :: "runtime \<Rightarrow> (string \<Rightarrow> exc + asset2) option \<Rightarrow> string \<Rightarrow> run" where
  "main2 rt yf stdin =
     (let args = read_input (rt_loads rt) stdin;
          ticker = str_arg rt args ''ticker'' [];
          start_date = str_arg rt args ''start_date'' [];
          period = str_arg rt args ''period'' [];
          interval = (let i = str_arg rt args ''interval'' ''1d'' in if i = [] then ''1d'' else i)
      in if ticker = [] then emit_return [] (emit2 (rt_repr rt) invalid_input)
         else case yf of
             None \<Rightarrow> emit_return [Provider_import] (emit2 (rt_repr rt) dependency_missing)
           | Some Ticker \<Rightarrow>
               (case bind_exc (Ticker ticker) (\<lambda>asset.
                       bind_exc (response2 rt asset ticker (make_kwargs interval start_date period))
                         (emit2 (rt_repr rt))) of
                  Inr text \<Rightarrow> ([Provider_import, Stdout text], Exit 0)
                | Inl error \<Rightarrow>
                    emit_return [Provider_import]
                      (emit2 (rt_repr rt) (failure ''runtime_error'' (exc_msg error)))))"

section \<open>Example inputs\<close>

text \<open>
  Concrete values for the instances below: a \<^verbatim>\<open>repr\<close>, a \<^verbatim>\<open>json.loads\<close> that knows one
  request text, an empty table, a table whose \<^verbatim>\<open>to_dict\<close> raises, and three series.
\<close>

definition repr_plain :: "pyval \<Rightarrow> string" where
  "repr_plain v = ''<repr>''"

definition loads_only :: "string \<Rightarrow> pyval \<Rightarrow> string \<Rightarrow> exc + pyval" where
  "loads_only text v raw =
     (if raw = text then Inr v else Inl (Exc ''JSONDecodeError'' ''Expecting value''))"

definition ambiguous_truth :: exc where
  "ambiguous_truth = Exc ''ValueError'' ''The truth value of a DataFrame is ambiguous''"

definition empty_frame :: pyval where
  "empty_frame =
     PObj Absent Absent (Returns True) Absent (Returns (PDict [])) Absent Absent
       (Raises ambiguous_truth) ''Empty DataFrame''"

definition broken_frame :: pyval where
  "broken_frame =
     PObj Absent Absent (Returns False) Absent
       (Raises (Exc ''ValueError'' ''DataFrame columns must be unique for orient=split''))
       Absent Absent (Raises ambiguous_truth) ''DataFrame''"

definition empty_series :: pyval where
  "empty_series =
     PObj (Raises (Exc ''ValueError'' ''can only convert an array of size 1 to a Python scalar''))
       (Returns (PList [])) (Returns True) (Returns (PDict [])) Absent Absent Absent
       (Raises ambiguous_truth) ''Series([], )''"

definition dividend_items :: "(pyval \<times> pyval) list" where
  "dividend_items =
     [(PDateTime (DateTime ''2024-02-09T00:00:00-05:00'' True ''2024-02-09'' (Inr ''2024-02-09'')),
       PFloat (Finite (6 / 25))),
      (PDateTime (DateTime ''2024-05-10T00:00:00-04:00'' True ''2024-05-10'' (Inr ''2024-05-10'')),
       PFloat NaN)]"

definition dividend_series :: pyval where
  "dividend_series =
     PObj (Raises (Exc ''ValueError'' ''can only convert an array of size 1 to a Python scalar''))
       (Returns (PList (map snd dividend_items))) (Returns False) (Returns (PDict dividend_items))
       Absent Absent Absent (Raises ambiguous_truth) ''Series''"

definition broken_series :: pyval where
  "broken_series =
     PObj Absent Absent (Returns False) (Raises (Exc ''RuntimeError'' ''no data'')) Absent Absent
       Absent (Raises ambiguous_truth) ''Series''"

definition float_only :: "string \<Rightarrow> pyfloat \<Rightarrow> string \<Rightarrow> exc + pyfloat" where
  "float_only text x s =
     (if s = text then Inr x else Inl (Exc ''ValueError'' ''could not convert string to float''))"

definition example_rt :: runtime where
  \<open>example_rt =
     \<lparr>rt_loads = loads_only ''{"ticker": "ACME"}'' (PDict [(PStr ''ticker'', PStr ''ACME'')]),
      rt_repr = repr_plain,
      rt_float_of_str = float_only ''1.5'' (Finite (3 / 2)),
      rt_now = ''2024-06-01T12:00:00+00:00''\<rparr>\<close>

definition example_row :: "(string \<times> pyval) list" where
  "example_row =
     [(''Open'', PFloat (Finite 10)), (''High'', PFloat NaN), (''Low'', PStr ''n/a''),
      (''Close'', PStr ''1.5''), (''Volume'', PList []), (''Dividends'', PFloat NaN)]"

section \<open>Strict JSON\<close>

text \<open>A token sequence is strict JSON text when none of the three non-finite literals is in it.\<close>

definition strict :: "token list \<Rightarrow> bool" where
  "strict ts = (TNaN \<notin> set ts \<and> TInfinity \<notin> set ts \<and> TNegInfinity \<notin> set ts)"

text \<open>A value that holds a non-finite float somewhere (as an element, a dict value or a dict key).\<close>

fun has_nonfinite :: "pyval \<Rightarrow> bool" where
  "has_nonfinite (PFloat x) = (\<not> isfinite x)"
| "has_nonfinite (PList xs) = list_ex has_nonfinite xs"
| "has_nonfinite (PTuple xs) = list_ex has_nonfinite xs"
| "has_nonfinite (PDict kvs) = list_ex (\<lambda>kv. has_nonfinite (fst kv) \<or> has_nonfinite (snd kv)) kvs"
| "has_nonfinite v = False"

text \<open>The texts of the three failure responses, and what a run writes to standard output.\<close>

definition failure_text :: "string \<Rightarrow> string \<Rightarrow> token list" where
  "failure_text code message =
     [LBrace, TString ''ok'', Colon, TFalse, Comma, TString ''code'', Colon, TString code, Comma,
      TString ''error'', Colon, TString message, RBrace]"

fun stdout_of :: "event list \<Rightarrow> token list list" where
  "stdout_of [] = []"
| "stdout_of (Stdout text # evs) = text # stdout_of evs"
| "stdout_of (Provider_import # evs) = stdout_of evs"

text \<open>The requests and the provider of the runs evaluated below.\<close>

definition request_abc :: pyval where
  "request_abc = PDict [(PStr ''ticker'', PStr ''ACME''), (PStr ''history_days'', PStr ''abc'')]"

definition request_blank_abc :: pyval where
  "request_blank_abc = PDict [(PStr ''ticker'', PStr []), (PStr ''history_days'', PStr ''abc'')]"

definition request_acme :: pyval where
  "request_acme = PDict [(PStr ''ticker'', PStr ''ACME'')]"

definition infinite_open :: history where
  "infinite_open =
     HFrame (Returns False)
       [(PDate ''2024-01-02'', [(''Open'', PFloat PosInf), (''Close'', PFloat (Finite 5))])]"

definition yf_infinite_open :: "(string \<Rightarrow> exc + asset2) option" where
  "yf_infinite_open =
     Some (\<lambda>ticker. Inr \<lparr>a2_history = (\<lambda>kwargs. Inr infinite_open), a2_info = Returns (PDict [])\<rparr>)"

section \<open>Properties of the normalizer\<close>

lemma bind_exc_simps [simp]:
  "bind_exc (Inl e) f = Inl e"
  "bind_exc (Inr x) f = f x"
  by (simp_all add: bind_exc_def)

subsection \<open>Dict construction keeps keys distinct and adds no item\<close>

lemma dict_set_keys: "set (map fst (dict_set d k v)) = insert k (set (map fst d))"
  by (induction d k v rule: dict_set.induct) auto

lemma dict_set_distinct: "distinct (map fst d) \<Longrightarrow> distinct (map fst (dict_set d k v))"
  by (induction d k v rule: dict_set.induct) (auto simp: dict_set_keys simp del: set_map)

lemma dict_set_items: "set (dict_set d k v) \<subseteq> insert (k, v) (set d)"
  by (induction d k v rule: dict_set.induct) auto

lemma dict_set_fresh: "k \<notin> fst ` set d \<Longrightarrow> dict_set d k v = d @ [(k, v)]"
  by (induction d k v rule: dict_set.induct) auto

lemma dict_build_distinct: "distinct (map fst d) \<Longrightarrow> distinct (map fst (dict_build d kvs))"
  by (induction d kvs rule: dict_build.induct) (auto simp: dict_set_distinct)

lemma dict_build_items: "set (dict_build d kvs) \<subseteq> set d \<union> set kvs"
proof (induction d kvs rule: dict_build.induct)
  case (1 d)
  then show ?case by simp
next
  case (2 d k v kvs)
  then show ?case using dict_set_items [of d k v] by auto
qed

lemma dict_build_fresh: "distinct (map fst (d @ kvs)) \<Longrightarrow> dict_build d kvs = d @ kvs"
proof (induction d kvs rule: dict_build.induct)
  case (1 d)
  then show ?case by simp
next
  case (2 d k v kvs)
  then have "dict_set d k v = d @ [(k, v)]"
    by (intro dict_set_fresh) auto
  with 2 show ?case by simp
qed

lemma dict_of_items_distinct: "distinct (map fst (dict_of_items kvs))"
  by (simp add: dict_of_items_def dict_build_distinct)

lemma dict_of_items_items: "set (dict_of_items kvs) \<subseteq> set kvs"
  using dict_build_items [of "[]" kvs] by (simp add: dict_of_items_def)

lemma dict_of_items_id: "distinct (map fst kvs) \<Longrightarrow> dict_of_items kvs = kvs"
  using dict_build_fresh [of "[]" kvs] by (simp add: dict_of_items_def)

subsection \<open>The result is normalized, and a normalized value is a fixed point\<close>

lemma to_json_compatible_normalized: "normalized (to_json_compatible rp v)"
proof (induction rp v rule: to_json_compatible.induct)
  case (9 rp kvs)
  let ?items = "map (\<lambda>kv. (PStr (py_str rp (fst kv)), to_json_compatible rp (snd kv))) kvs"
  have "\<forall>kv \<in> set ?items. is_str (fst kv) \<and> normalized (snd kv)"
    using 9 by auto
  then have "\<forall>kv \<in> set (dict_of_items ?items). is_str (fst kv) \<and> normalized (snd kv)"
    using dict_of_items_items [of ?items] by blast
  then show ?case
    by (simp add: dict_of_items_distinct list_all_iff)
qed (auto simp: list_all_iff split: cap.splits)

lemma to_json_compatible_fixed: "normalized v \<Longrightarrow> to_json_compatible rp v = v"
proof (induction rp v rule: to_json_compatible.induct)
  case (9 rp kvs)
  then have d: "distinct (map fst kvs)"
    and a: "\<forall>kv \<in> set kvs. is_str (fst kv) \<and> normalized (snd kv)"
    by (simp_all add: list_all_iff)
  have "map (\<lambda>kv. (PStr (py_str rp (fst kv)), to_json_compatible rp (snd kv))) kvs =
        map (\<lambda>kv. kv) kvs"
  proof (rule map_cong [OF refl])
    fix kv assume m: "kv \<in> set kvs"
    obtain k v where kv: "kv = (k, v)" by (cases kv)
    from a m kv have "is_str k" "normalized v" by auto
    then obtain s where "k = PStr s" by (cases k) auto
    moreover have "to_json_compatible rp v = v"
      using 9(1) [OF m] \<open>normalized v\<close> kv by simp
    ultimately show "(PStr (py_str rp (fst kv)), to_json_compatible rp (snd kv)) = kv"
      using kv by simp
  qed
  then show ?case using d by (simp add: dict_of_items_id)
qed (auto simp: list_all_iff map_idI)

text \<open>
  C3. Whatever the input, the result of \<^verbatim>\<open>_to_json_compatible\<close> is built, at every depth,
  from \<^verbatim>\<open>None\<close>, bools, ints, finite floats, strings, lists and dicts with string keys
  only: no \<^verbatim>\<open>NaN\<close> or infinity, no date or datetime, no provider object, no tuple and no
  complex number is left in it.
\<close>

theorem normalize_result_is_normalized: "normalized (to_json_compatible rp v)"
  by (rule to_json_compatible_normalized)

text \<open>
  C4. A finite float is returned as it is; \<^verbatim>\<open>NaN\<close>, \<^verbatim>\<open>+Infinity\<close> and \<^verbatim>\<open>-Infinity\<close>
  become \<^verbatim>\<open>None\<close>.
\<close>

theorem normalize_float:
  "(isfinite x \<longrightarrow> to_json_compatible rp (PFloat x) = PFloat x) \<and>
   (x \<in> {NaN, PosInf, NegInf} \<longrightarrow> to_json_compatible rp (PFloat x) = PNone)"
  by auto

theorem normalize_float_witness:
  "isfinite (Finite (3 / 2)) \<and>
   to_json_compatible repr_plain (PFloat (Finite (3 / 2))) = PFloat (Finite (3 / 2)) \<and>
   NaN \<in> {NaN, PosInf, NegInf} \<and> to_json_compatible repr_plain (PFloat NaN) = PNone \<and>
   PosInf \<in> {NaN, PosInf, NegInf} \<and> to_json_compatible repr_plain (PFloat PosInf) = PNone \<and>
   NegInf \<in> {NaN, PosInf, NegInf} \<and> to_json_compatible repr_plain (PFloat NegInf) = PNone"
  using normalize_float [of "Finite (3 / 2)" repr_plain] normalize_float [of NaN repr_plain]
    normalize_float [of PosInf repr_plain] normalize_float [of NegInf repr_plain]
  by simp

text \<open>
  C5. A string is returned unchanged: it reaches the final \<^verbatim>\<open>str(value)\<close> branch, which is
  the identity on strings, and is never taken apart into its characters.
\<close>

theorem normalize_string: "to_json_compatible rp (PStr s) = PStr s"
  by simp

text \<open>
  C10. Normalizing twice is normalizing once: every result of \<^verbatim>\<open>_to_json_compatible\<close> is a
  fixed point of it.
\<close>

theorem normalize_idempotent:
  "to_json_compatible rp (to_json_compatible rp v) = to_json_compatible rp v"
  by (rule to_json_compatible_fixed) (rule to_json_compatible_normalized)

section \<open>Properties of the table and series adapters\<close>

text \<open>
  C6. \<^verbatim>\<open>_df_to_payload\<close> returns \<^verbatim>\<open>None\<close> for \<^verbatim>\<open>None\<close>; exactly the triple of empty
  lists for a table whose \<^verbatim>\<open>empty\<close> attribute is true; and \<^verbatim>\<open>None\<close>, not an exception,
  when reading \<^verbatim>\<open>empty\<close> raises or when the table is not empty and
  \<^verbatim>\<open>to_dict(orient="split")\<close> raises or is missing.
\<close>

theorem df_to_payload_null_empty_failure:
  "df_to_payload rp PNone = PNone \<and>
   (df \<noteq> PNone \<and> getattr_empty df = Inr True \<longrightarrow>
      df_to_payload rp df =
        PDict [(PStr ''columns'', PList []), (PStr ''index'', PList []), (PStr ''data'', PList [])]) \<and>
   (df \<noteq> PNone \<and>
    (isl (getattr_empty df) \<or> getattr_empty df = Inr False \<and> isl (call_to_dict_split df)) \<longrightarrow>
      df_to_payload rp df = PNone)"
  by (auto simp: df_to_payload_def df_to_payload_try_def empty_table_def isl_def)

theorem df_to_payload_witness:
  "empty_frame \<noteq> PNone \<and> getattr_empty empty_frame = Inr True \<and>
   df_to_payload repr_plain empty_frame =
     PDict [(PStr ''columns'', PList []), (PStr ''index'', PList []), (PStr ''data'', PList [])] \<and>
   broken_frame \<noteq> PNone \<and> getattr_empty broken_frame = Inr False \<and>
   isl (call_to_dict_split broken_frame) \<and>
   df_to_payload repr_plain broken_frame = PNone"
  using df_to_payload_null_empty_failure [of repr_plain empty_frame]
    df_to_payload_null_empty_failure [of repr_plain broken_frame]
  by (simp add: empty_frame_def broken_frame_def)

lemma df_to_payload_table:
  "df \<noteq> PNone \<Longrightarrow> getattr_empty df = Inr False \<Longrightarrow> call_to_dict_split df = Inr split \<Longrightarrow>
   df_to_payload rp df = to_json_compatible rp split"
  by (simp add: df_to_payload_def df_to_payload_try_def)

text \<open>
  C7. \<^verbatim>\<open>_series_to_payload\<close> returns \<^verbatim>\<open>None\<close> for \<^verbatim>\<open>None\<close>, the empty list for an empty
  series, and for a series whose \<^verbatim>\<open>to_dict()\<close> gives the items \<open>items\<close> the list of
  \<^verbatim>\<open>{"date": normalize(index), "value": normalize(value)}\<close>, one per item and in the order
  of the items; an exception (reading \<^verbatim>\<open>empty\<close>, in \<^verbatim>\<open>to_dict()\<close>, or in \<^verbatim>\<open>items()\<close> of what
  \<^verbatim>\<open>to_dict()\<close> returned) gives \<^verbatim>\<open>None\<close>.
\<close>

theorem series_to_payload_cases:
  "series_to_payload rp PNone = PNone \<and>
   (series \<noteq> PNone \<and> getattr_empty series = Inr True \<longrightarrow> series_to_payload rp series = PList []) \<and>
   (series \<noteq> PNone \<and> getattr_empty series = Inr False \<and>
    call_to_dict series = Inr (PDict items) \<longrightarrow>
      series_to_payload rp series =
        PList (map (\<lambda>(index, v).
          PDict [(PStr ''date'', to_json_compatible rp index),
                 (PStr ''value'', to_json_compatible rp v)]) items)) \<and>
   (series \<noteq> PNone \<and>
    (isl (getattr_empty series) \<or>
     getattr_empty series = Inr False \<and> has_to_dict series \<and>
     isl (bind_exc (call_to_dict series) dict_items)) \<longrightarrow>
      series_to_payload rp series = PNone)"
proof -
  have entry: "series_entry rp = (\<lambda>(index, v).
      PDict [(PStr ''date'', to_json_compatible rp index), (PStr ''value'', to_json_compatible rp v)])"
    by (auto simp: series_entry_def fun_eq_iff)
  have has: "has_to_dict series" if "call_to_dict series = Inr (PDict items)"
    using that by (cases series) (auto split: cap.splits)
  show ?thesis
    using has
    by (auto simp: series_to_payload_def series_to_payload_try_def entry isl_def bind_exc_def
        split: sum.splits)
qed

theorem series_to_payload_witness:
  "empty_series \<noteq> PNone \<and> getattr_empty empty_series = Inr True \<and>
   series_to_payload repr_plain empty_series = PList [] \<and>
   dividend_series \<noteq> PNone \<and> getattr_empty dividend_series = Inr False \<and>
   call_to_dict dividend_series = Inr (PDict dividend_items) \<and>
   series_to_payload repr_plain dividend_series =
     PList [PDict [(PStr ''date'', PStr ''2024-02-09T00:00:00-05:00''),
                   (PStr ''value'', PFloat (Finite (6 / 25)))],
            PDict [(PStr ''date'', PStr ''2024-05-10T00:00:00-04:00''), (PStr ''value'', PNone)]] \<and>
   broken_series \<noteq> PNone \<and> getattr_empty broken_series = Inr False \<and>
   has_to_dict broken_series \<and> isl (bind_exc (call_to_dict broken_series) dict_items) \<and>
   series_to_payload repr_plain broken_series = PNone"
  using series_to_payload_cases [of repr_plain empty_series]
    series_to_payload_cases [of repr_plain dividend_series dividend_items]
    series_to_payload_cases [of repr_plain broken_series]
  by (simp add: empty_series_def dividend_series_def broken_series_def dividend_items_def)

lemma series_to_payload_length:
  "series \<noteq> PNone \<Longrightarrow> getattr_empty series = Inr False \<Longrightarrow>
   call_to_dict series = Inr (PDict items) \<Longrightarrow>
   \<exists>out. series_to_payload rp series = PList out \<and> length out = length items \<and>
     (\<forall>i < length items. out ! i = series_entry rp (items ! i))"
proof -
  assume a: "series \<noteq> PNone" "getattr_empty series = Inr False"
    "call_to_dict series = Inr (PDict items)"
  then have "has_to_dict series"
    by (cases series) (auto split: cap.splits)
  with a have "series_to_payload rp series = PList (map (series_entry rp) items)"
    by (simp add: series_to_payload_def series_to_payload_try_def)
  then show ?thesis by simp
qed

lemma series_to_payload_generic:
  "series \<noteq> PNone \<Longrightarrow> getattr_empty series = Inr False \<Longrightarrow> \<not> has_to_dict series \<Longrightarrow>
   series_to_payload rp series = to_json_compatible rp series"
  by (simp add: series_to_payload_def series_to_payload_try_def)

section \<open>Properties of the history rows of the price-history script\<close>

lemma to_number_cases:
  "to_number fs v = PNone \<or> (\<exists>x. x \<noteq> NaN \<and> to_number fs v = PFloat x)"
  by (auto simp: to_number_def float_ne_def split: sum.splits)

lemma or_zero:
  "py_or (to_number fs v) (PFloat (Finite 0)) =
     Inr (if to_number fs v = PNone then PFloat (Finite 0) else to_number fs v)"
  using to_number_cases [of fs v] by (auto simp: py_or_def)

text \<open>
  C8. In a history row, a field whose value is \<^verbatim>\<open>None\<close>, fails \<^verbatim>\<open>float(...)\<close> or converts to
  \<^verbatim>\<open>NaN\<close> is \<^verbatim>\<open>None\<close>, and only that field: the row dict is always built, each field
  from its own column. \<^verbatim>\<open>dividends\<close> and \<^verbatim>\<open>stock_splits\<close> are \<^verbatim>\<open>0.0\<close> instead of \<^verbatim>\<open>None\<close>.
  A row whose index gives no date (\<^verbatim>\<open>None\<close> or the empty string) is skipped; a row with a
  date is emitted in front of the rows that follow it.
\<close>

theorem history_row_fields:
  "((v = PNone \<or> isl (py_float fs v) \<or> py_float fs v = Inr NaN) \<longrightarrow> to_number fs v = PNone) \<and>
   history_row fs date row =
     Inr (PDict
       [(PStr ''date'', PStr date),
        (PStr ''open'', to_number fs (row_get row ''Open'')),
        (PStr ''high'', to_number fs (row_get row ''High'')),
        (PStr ''low'', to_number fs (row_get row ''Low'')),
        (PStr ''close'', to_number fs (row_get row ''Close'')),
        (PStr ''adjusted_close'', to_number fs (row_get row ''Adj Close'')),
        (PStr ''volume'', to_number fs (row_get row ''Volume'')),
        (PStr ''dividends'',
         if to_number fs (row_get row ''Dividends'') = PNone then PFloat (Finite 0)
         else to_number fs (row_get row ''Dividends'')),
        (PStr ''stock_splits'',
         if to_number fs (row_get row ''Stock Splits'') = PNone then PFloat (Finite 0)
         else to_number fs (row_get row ''Stock Splits''))]) \<and>
   (index_to_utc_date (rt_repr rt) index = Inr None \<or>
    index_to_utc_date (rt_repr rt) index = Inr (Some []) \<longrightarrow>
      history_rows rt ((index, row) # rest) = history_rows rt rest) \<and>
   (index_to_utc_date (rt_repr rt) index = Inr (Some date) \<and> date \<noteq> [] \<longrightarrow>
      history_rows rt ((index, row) # rest) =
        bind_exc (history_row (rt_float_of_str rt) date row) (\<lambda>r.
          bind_exc (history_rows rt rest) (\<lambda>rs. Inr (r # rs))))"
proof -
  have a: "(v = PNone \<or> isl (py_float fs v) \<or> py_float fs v = Inr NaN) \<longrightarrow> to_number fs v = PNone"
    by (auto simp: to_number_def float_ne_def isl_def)
  have b: "history_row fs date row =
     Inr (PDict
       [(PStr ''date'', PStr date),
        (PStr ''open'', to_number fs (row_get row ''Open'')),
        (PStr ''high'', to_number fs (row_get row ''High'')),
        (PStr ''low'', to_number fs (row_get row ''Low'')),
        (PStr ''close'', to_number fs (row_get row ''Close'')),
        (PStr ''adjusted_close'', to_number fs (row_get row ''Adj Close'')),
        (PStr ''volume'', to_number fs (row_get row ''Volume'')),
        (PStr ''dividends'',
         if to_number fs (row_get row ''Dividends'') = PNone then PFloat (Finite 0)
         else to_number fs (row_get row ''Dividends'')),
        (PStr ''stock_splits'',
         if to_number fs (row_get row ''Stock Splits'') = PNone then PFloat (Finite 0)
         else to_number fs (row_get row ''Stock Splits''))])"
    unfolding history_row_def or_zero by simp
  have c: "index_to_utc_date (rt_repr rt) index = Inr None \<or>
    index_to_utc_date (rt_repr rt) index = Inr (Some []) \<longrightarrow>
      history_rows rt ((index, row) # rest) = history_rows rt rest"
    by auto
  have d: "index_to_utc_date (rt_repr rt) index = Inr (Some date) \<and> date \<noteq> [] \<longrightarrow>
      history_rows rt ((index, row) # rest) =
        bind_exc (history_row (rt_float_of_str rt) date row) (\<lambda>r.
          bind_exc (history_rows rt rest) (\<lambda>rs. Inr (r # rs)))"
    by auto
  from a b c d show ?thesis by blast
qed

theorem history_row_fields_witness:
  "isl (py_float (rt_float_of_str example_rt) (PStr ''n/a'')) \<and>
   to_number (rt_float_of_str example_rt) (PStr ''n/a'') = PNone \<and>
   py_float (rt_float_of_str example_rt) (PFloat NaN) = Inr NaN \<and>
   to_number (rt_float_of_str example_rt) (PFloat NaN) = PNone \<and>
   index_to_utc_date (rt_repr example_rt) (PStr ''  '') = Inr None \<and>
   history_rows example_rt [(PStr ''  '', example_row)] = Inr [] \<and>
   index_to_utc_date (rt_repr example_rt) (PDate ''2024-01-02'') = Inr (Some ''2024-01-02'') \<and>
   ''2024-01-02'' \<noteq> [] \<and>
   history_rows example_rt [(PDate ''2024-01-02'', example_row)] =
     Inr [PDict
       [(PStr ''date'', PStr ''2024-01-02''),
        (PStr ''open'', PFloat (Finite 10)),
        (PStr ''high'', PNone),
        (PStr ''low'', PNone),
        (PStr ''close'', PFloat (Finite (3 / 2))),
        (PStr ''adjusted_close'', PNone),
        (PStr ''volume'', PNone),
        (PStr ''dividends'', PFloat (Finite 0)),
        (PStr ''stock_splits'', PFloat (Finite 0))]]"
  using history_row_fields [of "PStr ''n/a''" "rt_float_of_str example_rt" "''2024-01-02''" example_row
      example_rt "PStr ''  ''" "[]"]
    history_row_fields [of "PFloat NaN" "rt_float_of_str example_rt" "''2024-01-02''" example_row
      example_rt "PDate ''2024-01-02''" "[]"]
  by (simp add: example_rt_def example_row_def float_only_def repr_plain_def to_number_def
      float_ne_def row_get_def index_to_utc_date_def py_strip_def is_space_def)

text \<open>
  The whole loop: when no index raises, the rows are those with a date, in the order of
  the table, and every one of them is there.
\<close>

lemma history_row_total: "\<exists>r. history_row fs date row = Inr r"
  unfolding history_row_def or_zero by simp

lemma history_rows_dated:
  assumes "\<forall>ir \<in> set rows. \<not> isl (index_to_utc_date (rt_repr rt) (fst ir))"
  shows "history_rows rt rows =
    Inr (concat (map (\<lambda>ir.
      case index_to_utc_date (rt_repr rt) (fst ir) of
        Inr (Some date) \<Rightarrow>
          if date = [] then []
          else (case history_row (rt_float_of_str rt) date (snd ir) of Inr r \<Rightarrow> [r] | Inl e \<Rightarrow> [])
      | _ \<Rightarrow> []) rows))"
  using assms
proof (induction rows)
  case Nil
  then show ?case by simp
next
  case (Cons ir rows)
  then obtain d where d: "index_to_utc_date (rt_repr rt) (fst ir) = Inr d"
    by (cases "index_to_utc_date (rt_repr rt) (fst ir)") auto
  show ?case
  proof (cases "d = None \<or> d = Some []")
    case True
    with d Cons show ?thesis by auto
  next
    case False
    then obtain date where date: "d = Some date" "date \<noteq> []" by auto
    obtain r where r: "history_row (rt_float_of_str rt) date (snd ir) = Inr r"
      using history_row_total by blast
    from d date r Cons show ?thesis by simp
  qed
qed

section \<open>Properties of the response writer\<close>

lemma strict_simps [simp]:
  "strict []"
  "strict (t # ts) = (t \<noteq> TNaN \<and> t \<noteq> TInfinity \<and> t \<noteq> TNegInfinity \<and> strict ts)"
  "strict (ts @ us) = (strict ts \<and> strict us)"
  by (auto simp: strict_def)

lemma dumps_float_strict:
  "dumps_float False x = Inr t \<Longrightarrow> t \<noteq> TNaN \<and> t \<noteq> TInfinity \<and> t \<noteq> TNegInfinity"
  by (cases x) auto

text \<open>With \<^verbatim>\<open>allow_nan=False\<close> whatever \<^verbatim>\<open>json.dumps\<close> returns is strict.\<close>

lemma json_dumps_strict_all:
  "json_dumps rp an v = Inr ts \<Longrightarrow> \<not> an \<Longrightarrow> strict ts"
  "json_dumps_list rp an xs = Inr ts \<Longrightarrow> \<not> an \<Longrightarrow> strict ts"
  "json_dumps_items rp an kvs = Inr ts \<Longrightarrow> \<not> an \<Longrightarrow> strict ts"
proof (induction rp an v and rp an xs and rp an kvs arbitrary: ts and ts and ts
    rule: json_dumps_json_dumps_list_json_dumps_items.induct)
  case (4 rp allow_nan x)
  then show ?case
    by (auto simp: bind_exc_def split: sum.splits dest: dumps_float_strict)
qed (auto simp: bind_exc_def split: sum.splits if_splits)

lemma emit1_strict: "emit1 rp payload = Inr written \<Longrightarrow> strict written"
  using json_dumps_strict_all(1) [of rp False payload written] by (simp add: emit1_def)

text \<open>With \<^verbatim>\<open>allow_nan=False\<close> a non-finite float anywhere in the value makes the encoding raise.\<close>

lemma dumps_key_nonfinite: "has_nonfinite k \<Longrightarrow> isl (dumps_key rp False k)"
  by (induction rp "False" k rule: dumps_key.induct) auto

lemma json_dumps_nonfinite_all:
  "has_nonfinite v \<Longrightarrow> \<not> an \<Longrightarrow> isl (json_dumps rp an v)"
  "list_ex has_nonfinite xs \<Longrightarrow> \<not> an \<Longrightarrow> isl (json_dumps_list rp an xs)"
  "list_ex (\<lambda>kv. has_nonfinite (fst kv) \<or> has_nonfinite (snd kv)) kvs \<Longrightarrow> \<not> an \<Longrightarrow>
     isl (json_dumps_items rp an kvs)"
proof (induction rp an v and rp an xs and rp an kvs
    rule: json_dumps_json_dumps_list_json_dumps_items.induct)
  case (4 rp allow_nan x)
  then show ?case by (cases x) auto
next
  case (16 rp allow_nan kv kvs)
  then show ?case
    using dumps_key_nonfinite [of "fst kv" rp]
    by (auto simp: bind_exc_def isl_def split: sum.splits)
qed (auto simp: bind_exc_def isl_def split: sum.splits)

lemma emit1_fails_loudly: "has_nonfinite payload \<Longrightarrow> isl (emit1 rp payload)"
  using json_dumps_nonfinite_all(1) [of payload False rp] by (simp add: emit1_def)

text \<open>With the default \<^verbatim>\<open>allow_nan=True\<close> the three literals are written.\<close>

lemma emit2_nonfinite:
  "emit2 rp (PFloat NaN) = Inr [TNaN]"
  "emit2 rp (PFloat PosInf) = Inr [TInfinity]"
  "emit2 rp (PFloat NegInf) = Inr [TNegInfinity]"
  by (simp_all add: emit2_def)

text \<open>\<^verbatim>\<open>_to_number\<close> filters \<^verbatim>\<open>NaN\<close> only: an infinity passes.\<close>

lemma to_number_infinity:
  "to_number fs (PFloat PosInf) = PFloat PosInf"
  "to_number fs (PFloat NegInf) = PFloat NegInf"
  by (simp_all add: to_number_def float_ne_def)

lemma emit_failure [simp]:
  "json_dumps rp an (failure code message) = Inr (failure_text code message)"
  by (simp add: failure_def failure_text_def)

section \<open>Properties of the request reader and of the two \<^verbatim>\<open>main\<close> functions\<close>

text \<open>Empty input, input that is not JSON and JSON that is not an object all read as no fields.\<close>

lemma load_input_no_fields:
  "py_strip stdin = [] \<or> isl (loads (py_strip stdin)) \<or>
   (\<exists>v. loads (py_strip stdin) = Inr v \<and> (\<forall>kvs. v \<noteq> PDict kvs)) \<Longrightarrow>
   load_input loads stdin = [] \<and> read_input loads stdin = []"
  by (auto simp: load_input_def read_input_def isl_def Let_def split: sum.splits pyval.splits)

lemma load_input_object:
  "py_strip stdin \<noteq> [] \<Longrightarrow> loads (py_strip stdin) = Inr (PDict kvs) \<Longrightarrow>
   load_input loads stdin = kvs \<and> read_input loads stdin = kvs"
  by (simp add: load_input_def read_input_def)

text \<open>
  The market-data script: once \<^verbatim>\<open>int(args.get("history_days", 30) or 30)\<close> has returned, a
  blank ticker gives the \<^verbatim>\<open>invalid_input\<close> response before the provider is imported, and
  every run writes one response and exits with 0. When the conversion raises, nothing is
  written and the exception leaves \<^verbatim>\<open>main\<close>.
\<close>

lemma main1_blank_ticker:
  assumes "bind_exc (py_or (dict_get (load_input (rt_loads rt) stdin) ''history_days'' (PInt 30))
             (PInt 30)) py_int = Inr n"
    and "py_strip (py_str (rt_repr rt)
           (dict_get (load_input (rt_loads rt) stdin) ''ticker'' (PStr []))) = []"
  shows "main1 rt yf stdin =
           ([Stdout (failure_text ''invalid_input'' ''ticker is required'')], Exit 0)"
  using assms by (simp add: main1_def Let_def emit_return_def emit1_def invalid_input_def)

lemma main1_no_fields:
  assumes "load_input (rt_loads rt) stdin = []"
  shows "main1 rt yf stdin =
           ([Stdout (failure_text ''invalid_input'' ''ticker is required'')], Exit 0)"
  by (rule main1_blank_ticker [where n = 30])
    (simp_all add: assms dict_get_def py_or_def py_strip_def)

lemma main1_one_response:
  assumes "bind_exc (py_or (dict_get (load_input (rt_loads rt) stdin) ''history_days'' (PInt 30))
             (PInt 30)) py_int = Inr n"
  shows "\<exists>text. stdout_of (fst (main1 rt yf stdin)) = [text] \<and> snd (main1 rt yf stdin) = Exit 0"
  using assms
  by (auto simp: main1_def Let_def emit_return_def emit1_def invalid_input_def dependency_missing_def
      split: option.splits sum.splits)

lemma main1_traceback:
  "main1 rt yf stdin = ([], Traceback e) \<longleftrightarrow>
   bind_exc (py_or (dict_get (load_input (rt_loads rt) stdin) ''history_days'' (PInt 30))
             (PInt 30)) py_int = Inl e"
  by (auto simp: main1_def Let_def emit_return_def emit1_def invalid_input_def dependency_missing_def
      split: option.splits sum.splits)

lemma main1_stdout_strict:
  "written \<in> set (stdout_of (fst (main1 rt yf stdin))) \<Longrightarrow> strict written"
  by (auto simp: main1_def Let_def emit_return_def bind_exc_def
      split: option.splits sum.splits if_splits dest: emit1_strict)

text \<open>The price-history script converts its fields with \<^verbatim>\<open>str\<close> only: every run writes one
  response and exits with 0.\<close>

lemma main2_one_response:
  "\<exists>text. stdout_of (fst (main2 rt yf stdin)) = [text] \<and> snd (main2 rt yf stdin) = Exit 0"
  by (auto simp: main2_def Let_def emit_return_def emit2_def invalid_input_def dependency_missing_def
      split: option.splits sum.splits)

lemma main2_blank_ticker:
  assumes "str_arg rt (read_input (rt_loads rt) stdin) ''ticker'' [] = []"
  shows "main2 rt yf stdin =
           ([Stdout (failure_text ''invalid_input'' ''ticker is required'')], Exit 0)"
  using assms by (simp add: main2_def Let_def emit_return_def emit2_def invalid_input_def)

text \<open>
  In the market-data script everything that goes into the payload has passed the
  normalizer, so the response of the \<^verbatim>\<open>try\<close> block can always be encoded.
\<close>

lemma df_to_payload_normalized: "normalized (df_to_payload rp df)"
  by (auto simp: df_to_payload_def df_to_payload_try_def empty_table_def bind_exc_def
      to_json_compatible_normalized split: sum.splits)

lemma series_to_payload_normalized: "normalized (series_to_payload rp series)"
  by (auto simp: series_to_payload_def series_to_payload_try_def series_entry_def bind_exc_def
      to_json_compatible_normalized list_all_iff split: sum.splits)

lemma payload1_normalized: "payload1 rt asset ticker history_days = Inr payload \<Longrightarrow> normalized payload"
  by (auto simp: payload1_def Let_def bind_exc_def df_to_payload_normalized
      series_to_payload_normalized to_json_compatible_normalized split: sum.splits)

lemma normalized_dumps_all:
  "normalized v \<Longrightarrow> \<exists>ts. json_dumps rp an v = Inr ts"
  "list_all normalized xs \<Longrightarrow> \<exists>ts. json_dumps_list rp an xs = Inr ts"
  "list_all (\<lambda>kv. is_str (fst kv) \<and> normalized (snd kv)) kvs \<Longrightarrow>
     \<exists>ts. json_dumps_items rp an kvs = Inr ts"
proof (induction rp an v and rp an xs and rp an kvs
    rule: json_dumps_json_dumps_list_json_dumps_items.induct)
  case (4 rp allow_nan x)
  then show ?case by (cases x) auto
next
  case (16 rp allow_nan kv kvs)
  then obtain s where "fst kv = PStr s"
    by (cases "fst kv") auto
  with 16 show ?case
    by (auto simp: bind_exc_def split: sum.splits)
qed (auto simp: bind_exc_def split: sum.splits)

lemma main1_success:
  assumes "bind_exc (py_or (dict_get (load_input (rt_loads rt) stdin) ''history_days'' (PInt 30))
             (PInt 30)) py_int = Inr n"
    and "ticker = py_strip (py_str (rt_repr rt)
           (dict_get (load_input (rt_loads rt) stdin) ''ticker'' (PStr [])))"
    and "ticker \<noteq> []"
    and "Ticker ticker = Inr asset"
    and "payload1 rt asset ticker n = Inr payload"
  shows "\<exists>ts. json_dumps (rt_repr rt) False payload = Inr ts \<and>
           main1 rt (Some Ticker) stdin =
             ([Provider_import,
               Stdout ([LBrace, TString ''ok'', Colon, TTrue, Comma,
                        TString ''source'', Colon, TString ''yfinance'', Comma,
                        TString ''payload'', Colon] @ ts @ [RBrace])],
              Exit 0)"
proof -
  from payload1_normalized [OF assms(5)] obtain ts
    where ts: "json_dumps (rt_repr rt) False payload = Inr ts"
    using normalized_dumps_all(1) by blast
  with assms show ?thesis
    by (simp add: main1_def Let_def emit1_def)
qed

text \<open>
  C2. Every request is to be answered by one response object and exit code 0. The
  price-history script does so (\<open>main2_one_response\<close>), and so does the market-data
  script once \<^verbatim>\<open>history_days\<close> has been converted (\<open>main1_one_response\<close>). But the
  conversion \<^verbatim>\<open>int(args.get("history_days", 30) or 30)\<close> stands outside every \<^verbatim>\<open>try\<close>:
  for the request \<^verbatim>\<open>{"ticker": "ACME", "history_days": "abc"}\<close> the market-data script
  writes nothing and ends with the \<^verbatim>\<open>ValueError\<close> of \<^verbatim>\<open>int("abc")\<close>, whatever the provider.
\<close>

theorem history_days_abc_no_response:
  \<open>main1 (rt\<lparr>rt_loads := loads_only ''{"ticker": "ACME", "history_days": "abc"}'' request_abc\<rparr>)
     yf ''{"ticker": "ACME", "history_days": "abc"}'' =
   ([], Traceback (Exc ''ValueError'' ''invalid literal for int() with base 10''))\<close>
  by (simp add: main1_def load_input_def loads_only_def request_abc_def py_strip_def is_space_def
      dict_get_def py_or_def int_of_str_def parse_nat_def digit_val_def)

text \<open>
  C9. Empty input, input that is not JSON and JSON that is not an object read as no
  fields (\<open>load_input_no_fields\<close>) and are answered by the market-data script with the
  \<^verbatim>\<open>invalid_input\<close> response before the provider is imported (\<open>main1_no_fields\<close>), as is
  a blank ticker when \<^verbatim>\<open>history_days\<close> converts (\<open>main1_blank_ticker\<close>). But \<^verbatim>\<open>history_days\<close>
  is converted before the ticker is checked: for the request
  \<^verbatim>\<open>{"ticker": "", "history_days": "abc"}\<close>, whose ticker is blank, the script writes no
  response and ends with the \<^verbatim>\<open>ValueError\<close> of \<^verbatim>\<open>int("abc")\<close>.
\<close>

theorem blank_ticker_abc_no_response:
  \<open>main1 (rt\<lparr>rt_loads := loads_only ''{"ticker": "", "history_days": "abc"}'' request_blank_abc\<rparr>)
     yf ''{"ticker": "", "history_days": "abc"}'' =
   ([], Traceback (Exc ''ValueError'' ''invalid literal for int() with base 10''))\<close>
  by (simp add: main1_def load_input_def loads_only_def request_blank_abc_def py_strip_def
      is_space_def dict_get_def py_or_def int_of_str_def parse_nat_def digit_val_def)

text \<open>
  C1. The output is to be strict JSON in both scripts. The market-data script encodes with
  \<^verbatim>\<open>allow_nan=False\<close>: what it writes is strict (\<open>main1_stdout_strict\<close>) and a non-finite
  float makes the encoding raise (\<open>emit1_fails_loudly\<close>). The price-history script
  encodes with the default \<^verbatim>\<open>allow_nan=True\<close>, and \<^verbatim>\<open>_to_number\<close> lets an infinity through:
  for the request \<^verbatim>\<open>{"ticker": "ACME"}\<close> and a history row whose \<^verbatim>\<open>Open\<close> is
  \<^verbatim>\<open>+Infinity\<close> the response holds the literal \<^verbatim>\<open>Infinity\<close>.
\<close>

theorem price_history_writes_infinity:
  \<open>main2 (rt\<lparr>rt_loads := loads_only ''{"ticker": "ACME"}'' request_acme\<rparr>) yf_infinite_open
     ''{"ticker": "ACME"}'' =
   ([Provider_import,
     Stdout
      [LBrace, TString ''ok'', Colon, TTrue, Comma, TString ''payload'', Colon,
       LBrace, TString ''ticker'', Colon, TString ''ACME'', Comma,
       TString ''currency'', Colon, TNull, Comma,
       TString ''fetched_at'', Colon, TString (rt_now rt), Comma,
       TString ''rows'', Colon,
       LBracket,
         LBrace, TString ''date'', Colon, TString ''2024-01-02'', Comma,
         TString ''open'', Colon, TInfinity, Comma,
         TString ''high'', Colon, TNull, Comma,
         TString ''low'', Colon, TNull, Comma,
         TString ''close'', Colon, TFloat 5, Comma,
         TString ''adjusted_close'', Colon, TNull, Comma,
         TString ''volume'', Colon, TNull, Comma,
         TString ''dividends'', Colon, TFloat 0, Comma,
         TString ''stock_splits'', Colon, TFloat 0, RBrace,
       RBracket, RBrace, RBrace]],
    Exit 0)\<close>
  by (simp add: main2_def read_input_def loads_only_def request_acme_def py_strip_def is_space_def
      dict_get_def str_arg_def yf_infinite_open_def infinite_open_def response2_def
      rows_of_history_def index_to_utc_date_def history_row_def to_number_def float_ne_def
      row_get_def py_or_def getattr_default_def make_kwargs_def emit2_def)

end
